theory Spec2Isabelle
  imports Main
begin

section \<open>Function transpiler: the Body Extractor\<close>

text \<open>
  \<^verbatim>\<open>extractFunctionBody(content, startIndex)\<close> of \<^verbatim>\<open>migrate-functions.js\<close> walks the
  text from \<^verbatim>\<open>startIndex\<close> with a brace-depth counter. The loop state is
  \<^verbatim>\<open>(depth, inFunction, body)\<close>; the remaining text is the last argument. A character of
  the model stands for one code unit of the JavaScript string; only the two brace
  characters are ever inspected.
\<close>

fun scan_body :: "int \<Rightarrow> bool \<Rightarrow> string \<Rightarrow> string \<Rightarrow> string" where
  "scan_body depth inFunction body [] = body"
| "scan_body depth inFunction body (c # cs) =
     (let depth1 = (if c = CHR ''{'' then depth + 1 else depth);
          inFunction1 = (if c = CHR ''{'' then True else inFunction);
          body1 = (if inFunction1 then body @ [c] else body);
          depth2 = (if c = CHR ''}'' then depth1 - 1 else depth1)
      in if c = CHR ''}'' \<and> depth2 = 0 \<and> inFunction1 then body1
         else scan_body depth2 inFunction1 body1 cs)"

definition extractFunctionBody :: "string \<Rightarrow> nat \<Rightarrow> string" where
  "extractFunctionBody content startIndex =
     scan_body 0 False [] (drop startIndex content)"

text \<open>
  A block that is closed by its own matching brace: read at nesting depth \<open>d\<close>, the
  text returns to depth zero exactly at its last character.
\<close>

fun closes_at_end :: "nat \<Rightarrow> string \<Rightarrow> bool" where
  "closes_at_end d [] = False"
| "closes_at_end d (c # cs) =
     (if c = CHR ''{'' then closes_at_end (Suc d) cs
      else if c = CHR ''}'' then
        (case d of 0 \<Rightarrow> False | Suc 0 \<Rightarrow> cs = [] | Suc (Suc k) \<Rightarrow> closes_at_end (Suc k) cs)
      else closes_at_end d cs)"

fun balanced_block :: "string \<Rightarrow> bool" where
  "balanced_block [] = False"
| "balanced_block (c # cs) = (c = CHR ''{'' \<and> closes_at_end (Suc 0) cs)"

section \<open>Function transpiler: JavaScript strings and errors\<close>

text \<open>
  Exceptions of the JavaScript code are values: a function that may throw returns
  \<open>error + 'a\<close> with \<open>Inl\<close> for the exception.
\<close>

datatype error = TypeError string | SyntaxError string | IOError string

fun message :: "error \<Rightarrow> string" where
  "message (TypeError m) = m"
| "message (SyntaxError m) = m"
| "message (IOError m) = m"

text \<open>\<^verbatim>\<open>s.startsWith(p)\<close> and \<^verbatim>\<open>s.includes(p)\<close>.\<close>

fun starts_with :: "string \<Rightarrow> string \<Rightarrow> bool" where
  "starts_with s [] = True"
| "starts_with [] (p # ps) = False"
| "starts_with (c # cs) (p # ps) = (c = p \<and> starts_with cs ps)"

fun str_includes :: "string \<Rightarrow> string \<Rightarrow> bool" where
  "str_includes [] p = (p = [])"
| "str_includes (c # cs) p = (starts_with (c # cs) p \<or> str_includes cs p)"

text \<open>The character classes of the regular expressions: \<^verbatim>\<open>\w\<close>, \<^verbatim>\<open>\d\<close> and the three quotes.\<close>

definition is_digit :: "char \<Rightarrow> bool" where
  "is_digit c = (let n = (of_char c :: nat) in 48 \<le> n \<and> n \<le> 57)"

definition is_alnum :: "char \<Rightarrow> bool" where
  "is_alnum c = (let n = (of_char c :: nat) in
     (65 \<le> n \<and> n \<le> 90) \<or> (97 \<le> n \<and> n \<le> 122) \<or> (48 \<le> n \<and> n \<le> 57))"

definition is_word :: "char \<Rightarrow> bool" where
  "is_word c = (is_alnum c \<or> c = CHR ''_'')"

definition is_quote :: "char \<Rightarrow> bool" where
  "is_quote c = (c = CHR 0x27 \<or> c = CHR 0x22 \<or> c = CHR 0x60)"

section \<open>Function transpiler: the API Rewriter\<close>

text \<open>
  The patterns of \<^verbatim>\<open>convertFirebaseToSupabase\<close> are sequences of three kinds of
  element: literal text, one character of a class, and one capture group \<^verbatim>\<open>(cls+)\<close>.
  In each pattern the element after the group starts with a character outside the
  group's class, so the greedy group takes the longest run and no shorter choice can
  match: matching at a position is deterministic. \<open>match_pat\<close> returns the number of
  characters matched and the captured text.
\<close>

datatype pat = Lit string | One_of "char \<Rightarrow> bool" | Group "char \<Rightarrow> bool"

fun match_pat :: "pat list \<Rightarrow> string \<Rightarrow> (nat \<times> string) option" where
  "match_pat [] s = Some (0, [])"
| "match_pat (Lit p # ps) s =
     (if starts_with s p
      then map_option (\<lambda>(n, g). (length p + n, g)) (match_pat ps (drop (length p) s))
      else None)"
| "match_pat (One_of cls # ps) s =
     (case s of [] \<Rightarrow> None
      | c # cs \<Rightarrow> if cls c then map_option (\<lambda>(n, g). (Suc n, g)) (match_pat ps cs) else None)"
| "match_pat (Group cls # ps) s =
     (let g = takeWhile cls s in
      if g = [] then None
      else map_option (\<lambda>(n, _). (length g + n, g)) (match_pat ps (dropWhile cls s)))"

text \<open>
  \<^verbatim>\<open>text.replace(/pattern/g, replacement)\<close>: the leftmost match is replaced and the
  search goes on after it. Every pattern of the table matches at least one character,
  so after a match of length \<open>n\<close> at \<open>c # cs\<close> the rest is \<open>drop (n - 1) cs\<close>.
  \<open>rep\<close> builds the replacement from the captured text (\<^verbatim>\<open>$1\<close>).
\<close>

function replace_all :: "pat list \<Rightarrow> (string \<Rightarrow> string) \<Rightarrow> string \<Rightarrow> string" where
  "replace_all p rep [] = []"
| "replace_all p rep (c # cs) =
     (case match_pat p (c # cs) of
        None \<Rightarrow> c # replace_all p rep cs
      | Some (n, g) \<Rightarrow> rep g @ replace_all p rep (drop (n - 1) cs))"
  by pat_completeness auto
termination
  by (relation "measure (\<lambda>(p, rep, s). length s)") auto

text \<open>The ordered rule table, one entry per \<^verbatim>\<open>replace\<close> call of the source.\<close>

definition rewrite_rules :: "(pat list \<times> (string \<Rightarrow> string)) list" where
  "rewrite_rules =
   [ ([Lit ''admin.firestore()''], \<lambda>_. ''supabaseClient''),
     ([Lit ''admin.auth()''], \<lambda>_. ''supabaseClient.auth.admin''),
     ([Lit ''admin.storage()''], \<lambda>_. ''supabaseClient.storage''),
     ([Lit ''.collection('', One_of is_quote, Group is_word, One_of is_quote, Lit '')''],
        \<lambda>g. ''.from('' @ [CHR 0x27] @ g @ [CHR 0x27] @ '')''),
     ([Lit ''.doc('', One_of is_quote, Group (\<lambda>c. \<not> is_quote c), One_of is_quote, Lit '')''],
        \<lambda>g. ''.select().eq('' @ [CHR 0x27] @ ''id'' @ [CHR 0x27] @ '', '' @
             [CHR 0x27] @ g @ [CHR 0x27] @ '').single()''),
     ([Lit ''.get()''], \<lambda>_. []),
     ([Lit ''.data()''], \<lambda>_. []),
     ([Lit ''.set(''], \<lambda>_. ''.insert(''),
     ([Lit ''.update(''], \<lambda>_. ''.update(''),
     ([Lit ''.delete()''], \<lambda>_. ''.delete()''),
     ([Lit ''user.uid''], \<lambda>_. ''user.id''),
     ([Lit ''context.auth.uid''], \<lambda>_. ''user.id''),
     ([Lit ''admin.firestore.FieldValue.serverTimestamp()''], \<lambda>_. ''new Date().toISOString()''),
     ([Lit ''res.json(''], \<lambda>_. ''return new Response(JSON.stringify(''),
     ([Lit ''res.status('', Group is_digit, Lit '').send(''],
        \<lambda>g. ''return new Response('' @ g @ '', ''),
     ([Lit ''res.send(''], \<lambda>_. ''return new Response('') ]"

definition apply_rules :: "string \<Rightarrow> string" where
  "apply_rules code =
     foldl (\<lambda>converted (p, rep). replace_all p rep converted) code rewrite_rules"

definition admin_marker :: string where
  "admin_marker = ''// TODO: Review Firebase Admin SDK usage'' @ [CHR 0x0A] @ ''    ''"

definition functions_marker :: string where
  "functions_marker = ''// TODO: Review Firebase Functions usage'' @ [CHR 0x0A] @ ''    ''"

text \<open>
  The argument is \<^verbatim>\<open>func.body\<close>, which is \<^verbatim>\<open>undefined\<close> (\<open>None\<close>) for a record that
  has no body; \<^verbatim>\<open>undefined.replace\<close> throws a TypeError.
\<close>

definition convertFirebaseToSupabase :: "string option \<Rightarrow> error + string" where
  "convertFirebaseToSupabase code =
     (case code of
        None \<Rightarrow> Inl (TypeError ''Cannot read properties of undefined (reading replace)'')
      | Some code_text \<Rightarrow>
          (let converted = apply_rules code_text;
               converted = (if str_includes converted ''admin.''
                            then admin_marker @ converted else converted);
               converted = (if str_includes converted ''functions.''
                            then functions_marker @ converted else converted)
           in Inr converted))"

section \<open>Function transpiler: the Function Scanner\<close>

text \<open>
  A FunctionRecord, the object \<^verbatim>\<open>func\<close> built by \<^verbatim>\<open>parseCloudFunctions\<close> and by
  \<^verbatim>\<open>parseFunctionsFromFirebase\<close>. A property that was never assigned is \<open>None\<close>.
\<close>

record cloud_function =
  fn_name :: string
  fn_type :: string
  fn_source :: string
  fn_raw :: "string option"
  fn_document :: "string option"
  fn_trigger :: "string option"
  fn_schedule :: "string option"
  fn_body :: "string option"
  fn_url :: "string option"

text \<open>
  One result of \<^verbatim>\<open>pattern.exec(content)\<close>: \<^verbatim>\<open>match.index\<close>, \<^verbatim>\<open>match[0]\<close>,
  \<^verbatim>\<open>match[1]\<close> (every pattern of the registry captures it) and \<^verbatim>\<open>match[2]\<close>,
  \<^verbatim>\<open>match[3]\<close>, which are \<^verbatim>\<open>undefined\<close> for the patterns with fewer groups.
\<close>

record rmatch =
  m_index :: nat
  m_text :: string
  m_name :: string
  m_group2 :: "string option"
  m_group3 :: "string option"

text \<open>
  The regular-expression engine is the JavaScript runtime's. The scanner's model takes
  its answers as a parameter: the successive matches of each registry pattern in a text,
  and the first match of each of the three expressions of
  \<^verbatim>\<open>extractModernFunctionBody\<close>. Two of those are built with \<^verbatim>\<open>new RegExp\<close> from the
  function name, which throws a SyntaxError for a name that is not a valid expression.
\<close>

record regex_env =
  exec_all :: "string \<Rightarrow> string \<Rightarrow> rmatch list"
  handler_exec :: "string \<Rightarrow> string \<Rightarrow> error + nat option"
  export_exec :: "string \<Rightarrow> string \<Rightarrow> error + string option"
  async_exec :: "string \<Rightarrow> string option"

text \<open>The keys of \<^verbatim>\<open>patterns\<close>, in the order of \<^verbatim>\<open>Object.entries\<close>.\<close>

definition pattern_keys :: "string list" where
  "pattern_keys =
   [''https'', ''callable'', ''firestore'', ''auth'', ''storage'', ''pubsub'', ''scheduler'',
    ''https_es6'', ''callable_es6'', ''firestore_es6'', ''auth_es6'',
    ''http_factory'', ''callable_factory'', ''firestore_factory'', ''scheduled_factory'',
    ''export_http'', ''export_callable'', ''export_firestore'', ''export_scheduled'',
    ''handler'', ''async_handler'']"

definition normalizeType :: "string \<Rightarrow> string" where
  "normalizeType t =
     (if str_includes t ''https'' \<or> str_includes t ''http'' then ''https''
      else if str_includes t ''callable'' then ''callable''
      else if str_includes t ''firestore'' then ''firestore''
      else if str_includes t ''auth'' then ''auth''
      else if str_includes t ''storage'' then ''storage''
      else if str_includes t ''pubsub'' then ''pubsub''
      else if str_includes t ''scheduler'' then ''scheduler''
      else t)"

definition extractModernFunctionBody :: "regex_env \<Rightarrow> string \<Rightarrow> string \<Rightarrow> error + string" where
  "extractModernFunctionBody env content functionName =
     (case handler_exec env functionName content of
        Inl e \<Rightarrow> Inl e
      | Inr (Some handlerIndex) \<Rightarrow> Inr (extractFunctionBody content handlerIndex)
      | Inr None \<Rightarrow>
          (case export_exec env functionName content of
             Inl e \<Rightarrow> Inl e
           | Inr (Some exportMatch) \<Rightarrow> Inr exportMatch
           | Inr None \<Rightarrow>
               (case async_exec env content of
                  Some asyncMatch \<Rightarrow> Inr asyncMatch
                | None \<Rightarrow> Inr (take (min 1000 (length content)) content))))"

text \<open>
  The body of the \<^verbatim>\<open>while\<close> loop of \<^verbatim>\<open>parseCloudFunctions\<close> for one match of the
  pattern with key \<open>type\<close>, in two parts. The first part builds \<^verbatim>\<open>func\<close> and runs
  the chain of branches on the key; \<open>None\<close> is the \<^verbatim>\<open>continue\<close> of the handler branch.
\<close>

definition new_record :: "string \<Rightarrow> string \<Rightarrow> rmatch \<Rightarrow> cloud_function option" where
  "new_record filename type m =
     (let func = \<lparr> fn_name = m_name m, fn_type = normalizeType type, fn_source = filename,
                   fn_raw = Some (m_text m), fn_document = None, fn_trigger = None,
                   fn_schedule = None, fn_body = None, fn_url = None \<rparr>
      in if type = ''http_factory'' \<or> type = ''export_http''
           then Some (func\<lparr>fn_name := m_name m, fn_type := ''https''\<rparr>)
         else if type = ''callable_factory'' \<or> type = ''export_callable''
           then Some (func\<lparr>fn_name := m_name m, fn_type := ''callable''\<rparr>)
         else if type = ''firestore_factory'' \<or> type = ''export_firestore''
           then Some (func\<lparr>fn_name := m_name m, fn_type := ''firestore''\<rparr>)
         else if type = ''scheduled_factory'' \<or> type = ''export_scheduled''
           then Some (func\<lparr>fn_name := m_name m, fn_type := ''scheduler''\<rparr>)
         else if str_includes type ''handler'' \<or> str_includes type ''async_handler''
           then None
         else Some func)"

text \<open>
  The second part adds the trigger properties, extracts the body and applies the
  minimal-length filter: \<open>Inr None\<close> when no record is pushed, \<open>Inr (Some func)\<close> when
  \<open>func\<close> is pushed.
\<close>

definition scan_match ::
  "regex_env \<Rightarrow> string \<Rightarrow> string \<Rightarrow> string \<Rightarrow> rmatch \<Rightarrow> error + cloud_function option" where
  "scan_match env content filename type m =
     (case new_record filename type m of
        None \<Rightarrow> Inr None
      | Some func \<Rightarrow>
          (let func =
                 (if str_includes type ''firestore''
                    then func\<lparr>fn_document := m_group2 m, fn_trigger := m_group3 m\<rparr>
                  else if str_includes type ''auth'' then func\<lparr>fn_trigger := m_group2 m\<rparr>
                  else if str_includes type ''storage'' then func\<lparr>fn_trigger := m_group2 m\<rparr>
                  else if str_includes type ''pubsub'' \<or> str_includes type ''scheduler''
                    then func\<lparr>fn_schedule := m_group2 m\<rparr>
                  else func);
               body =
                 (if str_includes type ''_es6'' \<or> str_includes type ''_factory''
                      \<or> str_includes type ''export_''
                    then extractModernFunctionBody env content (fn_name func)
                  else Inr (extractFunctionBody content (m_index m)))
           in case body of
                Inl e \<Rightarrow> Inl e
              | Inr b \<Rightarrow>
                  if b \<noteq> [] \<and> length b > 10 then Inr (Some (func\<lparr>fn_body := Some b\<rparr>))
                  else Inr None))"

text \<open>The \<^verbatim>\<open>while\<close> loop over the matches of one pattern, pushing to \<open>functions\<close>.\<close>

fun scan_matches ::
  "regex_env \<Rightarrow> string \<Rightarrow> string \<Rightarrow> string \<Rightarrow> rmatch list \<Rightarrow> cloud_function list
     \<Rightarrow> error + cloud_function list" where
  "scan_matches env content filename type [] functions = Inr functions"
| "scan_matches env content filename type (m # ms) functions =
     (case scan_match env content filename type m of
        Inl e \<Rightarrow> Inl e
      | Inr None \<Rightarrow> scan_matches env content filename type ms functions
      | Inr (Some func) \<Rightarrow> scan_matches env content filename type ms (functions @ [func]))"

text \<open>The \<^verbatim>\<open>for\<close> loop over the pattern registry.\<close>

fun scan_patterns ::
  "regex_env \<Rightarrow> string \<Rightarrow> string \<Rightarrow> string list \<Rightarrow> cloud_function list
     \<Rightarrow> error + cloud_function list" where
  "scan_patterns env content filename [] functions = Inr functions"
| "scan_patterns env content filename (type # types) functions =
     (case scan_matches env content filename type (exec_all env type content) functions of
        Inl e \<Rightarrow> Inl e
      | Inr functions' \<Rightarrow> scan_patterns env content filename types functions')"

definition parseCloudFunctions :: "regex_env \<Rightarrow> string \<Rightarrow> string \<Rightarrow> error + cloud_function list" where
  "parseCloudFunctions env content filename =
     scan_patterns env content filename pattern_keys []"

section \<open>Function transpiler: the Code Generator and the Migration Orchestrator\<close>

record migration_report =
  total :: nat
  migrated :: nat
  failed :: nat
  warnings :: "string list"
  errors :: "string list"

text \<open>The report of a new \<^verbatim>\<open>FunctionMigrator\<close> (the constructor).\<close>

definition new_report :: migration_report where
  "new_report = \<lparr> total = 0, migrated = 0, failed = 0, warnings = [], errors = [] \<rparr>"

datatype log_type = Info | Warn | Error

definition log :: "string \<Rightarrow> log_type \<Rightarrow> migration_report \<Rightarrow> migration_report" where
  "log msg ty r =
     (if ty = Error then r\<lparr>errors := errors r @ [msg]\<rparr>
      else if ty = Warn then r\<lparr>warnings := warnings r @ [msg]\<rparr>
      else r)"

text \<open>The own keys of the \<^verbatim>\<open>templates\<close> table of \<^verbatim>\<open>generateEdgeFunction\<close>.\<close>

definition template_keys :: "string list" where
  "template_keys =
     [''https'', ''callable'', ''firestore'', ''auth'', ''storage'', ''pubsub'', ''scheduler'']"

text \<open>
  What \<^verbatim>\<open>generator.call(this, cloudFunction)\<close> can return, as far as the orchestrator
  looks at it: \<^verbatim>\<open>null\<close>, a string, another truthy value (an object), or another falsy
  value (\<^verbatim>\<open>false\<close>, \<^verbatim>\<open>undefined\<close>). \<open>truthy_value\<close> is the test \<^verbatim>\<open>!edgeFunctionCode\<close>,
  negated.
\<close>

datatype gen_value = GNull | GText string | GObject | GFalsy

fun truthy_value :: "gen_value \<Rightarrow> bool" where
  "truthy_value GNull = False"
| "truthy_value (GText s) = (s \<noteq> [])"
| "truthy_value GObject = True"
| "truthy_value GFalsy = False"

text \<open>
  \<^verbatim>\<open>templates\<close> is an object literal, so the lookup \<^verbatim>\<open>templates[cloudFunction.type]\<close>
  finds the seven own keys first and then the properties that every object inherits
  from \<^verbatim>\<open>Object.prototype\<close>. Those belong to the JavaScript runtime; the model takes
  them as the parameter \<open>proto\<close>: for the name of an inherited property, what calling it
  as \<^verbatim>\<open>generator.call(this, cloudFunction)\<close> does (\<open>Inl\<close> when that throws, which is also
  the case when the property is not a function).

  \<open>object_prototype\<close> is the standard table. With the migrator as \<^verbatim>\<open>this\<close> and the
  record as argument: \<^verbatim>\<open>toString\<close> and \<^verbatim>\<open>toLocaleString\<close> return the text
  \<^verbatim>\<open>[object Object]\<close>; \<^verbatim>\<open>constructor\<close> returns the record and \<^verbatim>\<open>valueOf\<close> the migrator,
  both objects; \<^verbatim>\<open>hasOwnProperty\<close>, \<^verbatim>\<open>isPrototypeOf\<close> and \<^verbatim>\<open>propertyIsEnumerable\<close> return
  \<^verbatim>\<open>false\<close>, \<^verbatim>\<open>__lookupGetter__\<close> and \<^verbatim>\<open>__lookupSetter__\<close> return \<^verbatim>\<open>undefined\<close>;
  \<^verbatim>\<open>__defineGetter__\<close> and \<^verbatim>\<open>__defineSetter__\<close> throw a TypeError (no function is
  passed), and \<^verbatim>\<open>__proto__\<close> is an object without a \<^verbatim>\<open>call\<close> method.
\<close>

definition object_prototype :: "string \<Rightarrow> (error + gen_value) option" where
  "object_prototype name =
     (if name = ''toString'' \<or> name = ''toLocaleString''
        then Some (Inr (GText ''[object Object]''))
      else if name = ''constructor'' \<or> name = ''valueOf''
        then Some (Inr GObject)
      else if name = ''hasOwnProperty'' \<or> name = ''isPrototypeOf''
              \<or> name = ''propertyIsEnumerable'' \<or> name = ''__lookupGetter__''
              \<or> name = ''__lookupSetter__''
        then Some (Inr GFalsy)
      else if name = ''__defineGetter__''
        then Some (Inl (TypeError ''Object.prototype.__defineGetter__: Expecting function''))
      else if name = ''__defineSetter__''
        then Some (Inl (TypeError ''Object.prototype.__defineSetter__: Expecting function''))
      else if name = ''__proto__''
        then Some (Inl (TypeError ''generator.call is not a function''))
      else None)"

text \<open>
  Each of the seven generators converts \<^verbatim>\<open>func.body\<close> and fills a template literal; all
  seven literals start with the text \<^verbatim>\<open>// Migrated from\<close>. The rest of the literal, with
  the indented converted body in its slot, is the parameter \<open>tpl\<close> (by template key).
  The result is the pair of what \<^verbatim>\<open>generateEdgeFunction\<close> returns (\<open>Inl\<close> for an
  exception) and the report after its log call.
\<close>

definition generateEdgeFunction ::
  "(string \<Rightarrow> (error + gen_value) option) \<Rightarrow> (string \<Rightarrow> cloud_function \<Rightarrow> string \<Rightarrow> string)
     \<Rightarrow> cloud_function \<Rightarrow> migration_report \<Rightarrow> (error + gen_value) \<times> migration_report" where
  "generateEdgeFunction proto tpl cloudFunction r =
     (if fn_type cloudFunction \<in> set template_keys
      then (case convertFirebaseToSupabase (fn_body cloudFunction) of
              Inl e \<Rightarrow> (Inl e, r)
            | Inr functionBody \<Rightarrow>
                (Inr (GText (''// Migrated from '' @
                             tpl (fn_type cloudFunction) cloudFunction functionBody)), r))
      else (case proto (fn_type cloudFunction) of
              Some inherited \<Rightarrow> (inherited, r)
            | None \<Rightarrow>
                (Inr GNull,
                 log (''Unsupported function type: '' @ fn_type cloudFunction) Warn r)))"

datatype status = Migrated string | Failed string

record summary_entry =
  s_name :: string
  s_type :: string
  s_status :: status

text \<open>
  The file system is the environment: \<open>mkdir_output\<close> is the creation of the output
  directory before the loop, \<open>mkdir_unit\<close> the creation of the directory of one function,
  \<open>write_files\<close> its two file writes, \<open>write_report\<close> the write of the report file; each
  gives the exception it throws, if any. \<open>path_join\<close> is \<^verbatim>\<open>path.join\<close>.
\<close>

record fs_env =
  mkdir_output :: "error option"
  mkdir_unit :: "cloud_function \<Rightarrow> error option"
  write_files :: "cloud_function \<Rightarrow> string \<Rightarrow> error option"
  write_report :: "summary_entry list \<Rightarrow> migration_report \<Rightarrow> error option"
  path_join :: "string \<Rightarrow> string \<Rightarrow> string"

text \<open>
  One iteration of the \<^verbatim>\<open>for\<close> loop of \<^verbatim>\<open>createEdgeFunctions\<close>, with its try/catch.
  \<^verbatim>\<open>fs.writeFileSync\<close> throws a TypeError for data that is an object.
\<close>

definition create_one ::
  "fs_env \<Rightarrow> (string \<Rightarrow> (error + gen_value) option)
     \<Rightarrow> (string \<Rightarrow> cloud_function \<Rightarrow> string \<Rightarrow> string) \<Rightarrow> string \<Rightarrow> cloud_function
     \<Rightarrow> summary_entry list \<times> migration_report \<Rightarrow> summary_entry list \<times> migration_report" where
  "create_one fs proto tpl outputDir func acc =
     (let (migrationSummary, r) = acc;
          (generated, r) = generateEdgeFunction proto tpl func r;
          on_error = (\<lambda>e r.
             (migrationSummary @
                [\<lparr> s_name = fn_name func, s_type = fn_type func, s_status = Failed (message e) \<rparr>],
              (log (''Failed to migrate function '' @ fn_name func @ '': '' @ message e) Error r)
                \<lparr>failed := failed r + 1\<rparr>))
      in case generated of
           Inl e \<Rightarrow> on_error e r
         | Inr edgeFunctionCode \<Rightarrow>
             if \<not> truthy_value edgeFunctionCode
             then (migrationSummary,
                   log (''Skipping function '' @ fn_name func @ '' - unsupported type'') Warn r)
             else
               (case mkdir_unit fs func of
                  Some e \<Rightarrow> on_error e r
                | None \<Rightarrow>
                    (case edgeFunctionCode of
                       GText code \<Rightarrow>
                         (case write_files fs func code of
                            Some e \<Rightarrow> on_error e r
                          | None \<Rightarrow>
                              (migrationSummary @
                                 [\<lparr> s_name = fn_name func, s_type = fn_type func,
                                    s_status = Migrated (path_join fs outputDir (fn_name func)) \<rparr>],
                               r\<lparr>migrated := migrated r + 1\<rparr>))
                     | _ \<Rightarrow>
                         on_error
                           (TypeError ''The data argument must be of type string or an instance of Buffer, TypedArray, or DataView'')
                           r)))"

definition createEdgeFunctions ::
  "fs_env \<Rightarrow> (string \<Rightarrow> (error + gen_value) option)
     \<Rightarrow> (string \<Rightarrow> cloud_function \<Rightarrow> string \<Rightarrow> string) \<Rightarrow> string \<Rightarrow> cloud_function list
     \<Rightarrow> migration_report \<Rightarrow> (error + summary_entry list) \<times> migration_report" where
  "createEdgeFunctions fs proto tpl outputDir functions r =
     (case mkdir_output fs of
        Some e \<Rightarrow> (Inl e, r)
      | None \<Rightarrow>
          (let (migrationSummary, r') =
                 foldl (\<lambda>acc func. create_one fs proto tpl outputDir func acc) ([], r) functions
           in (Inr migrationSummary, r')))"

text \<open>
  \<^verbatim>\<open>migrate()\<close>. The parsing step reads files or runs a subprocess; the model takes what
  it returned: \<open>None\<close> when neither \<^verbatim>\<open>--source\<close> nor \<^verbatim>\<open>--firebase-project\<close> was given,
  otherwise the parsed records and the log calls made while parsing. The result is the
  exception that rejects the promise, if any, and the report.
\<close>

definition migrate ::
  "fs_env \<Rightarrow> (string \<Rightarrow> (error + gen_value) option)
     \<Rightarrow> (string \<Rightarrow> cloud_function \<Rightarrow> string \<Rightarrow> string) \<Rightarrow> string
     \<Rightarrow> (cloud_function list \<times> (string \<times> log_type) list) option
     \<Rightarrow> migration_report \<Rightarrow> error option \<times> migration_report" where
  "migrate fs proto tpl outputDir parsed r =
     (case parsed of
        None \<Rightarrow> (None, log ''Either --source or --firebase-project must be specified'' Error r)
      | Some (functions, parse_logs) \<Rightarrow>
          (let r = foldl (\<lambda>r (msg, ty). log msg ty r) r parse_logs;
               r = r\<lparr>total := length functions\<rparr>
           in if length functions = 0 then (None, log ''No functions found to migrate'' Warn r)
              else (case createEdgeFunctions fs proto tpl outputDir functions r of
                      (Inl e, r) \<Rightarrow> (Some e, r)
                    | (Inr summary, r) \<Rightarrow> (write_report fs summary r, r))))"


section \<open>Document-Tree Exporter: documents and the store\<close>

text \<open>
  Field values of a document, as far as the exporter looks at them: it tests a field
  for truthiness (\<^verbatim>\<open>!doc.firestore_id\<close>) and concatenates one to a string
  (\<^verbatim>\<open>docData.collection_path + "/"\<close>). Numbers are the integers; nested maps and arrays
  are not modelled. A field that is absent reads as \<^verbatim>\<open>undefined\<close>.
\<close>

datatype jsval = JUndefined | JNull | JBool bool | JNum int | JStr string

fun truthy :: "jsval \<Rightarrow> bool" where
  "truthy JUndefined = False"
| "truthy JNull = False"
| "truthy (JBool b) = b"
| "truthy (JNum n) = (n \<noteq> 0)"
| "truthy (JStr s) = (s \<noteq> [])"

function show_nat :: "nat \<Rightarrow> string" where
  "show_nat n =
     (if n < 10 then [char_of (48 + n)] else show_nat (n div 10) @ [char_of (48 + n mod 10)])"
  by pat_completeness auto
termination
  by (relation "measure id") auto

text \<open>The string that \<^verbatim>\<open>value + "/"\<close> starts with.\<close>

fun to_string :: "jsval \<Rightarrow> string" where
  "to_string JUndefined = ''undefined''"
| "to_string JNull = ''null''"
| "to_string (JBool b) = (if b then ''true'' else ''false'')"
| "to_string (JNum n) = (if n < 0 then ''-'' @ show_nat (nat (- n)) else show_nat (nat n))"
| "to_string (JStr s) = s"

text \<open>A document's data: its fields in insertion order.\<close>

type_synonym jsdoc = "(string \<times> jsval) list"

fun get_field :: "jsdoc \<Rightarrow> string \<Rightarrow> jsval" where
  "get_field [] k = JUndefined"
| "get_field ((k', v) # others) k = (if k' = k then v else get_field others k)"

fun set_field :: "jsdoc \<Rightarrow> string \<Rightarrow> jsval \<Rightarrow> jsdoc" where
  "set_field [] k v = [(k, v)]"
| "set_field ((k', v') # others) k v =
     (if k' = k then (k, v) # others else (k', v') # set_field others k v)"

text \<open>
  The hierarchical store, as the exporter reads it. A document snapshot has an id, its
  data, and what \<^verbatim>\<open>ref.listCollections()\<close> resolves to; a collection has an id and what
  \<^verbatim>\<open>get()\<close> resolves to. \<open>Inl\<close> is a rejected promise, with its message.
\<close>

datatype fsdoc =
  FsDoc (fs_id: string) (fs_data: jsdoc) (listCollections: "string + fscoll list")
and fscoll =
  FsColl (coll_id: string) (coll_get: "string + fsdoc list")

text \<open>\<^verbatim>\<open>collection.limit(n).get()\<close>: the first \<open>n\<close> documents.\<close>

definition limit_get :: "nat \<Rightarrow> fscoll \<Rightarrow> string + fsdoc list" where
  "limit_get n collection =
     (case coll_get collection of Inl err \<Rightarrow> Inl err | Inr docs \<Rightarrow> Inr (take n docs))"

section \<open>Document-Tree Exporter: the subcollection walk\<close>

text \<open>
  The walk's output: the calls of \<^verbatim>\<open>writeRecord(tableName, docData, recordCounters)\<close>
  it makes, and the lines it prints with \<^verbatim>\<open>console.error\<close>. The recursive call of the
  source is not awaited, so the nested walk's calls happen later than the place where
  they stand here; which calls are made, and with which arguments, does not depend on
  that.
\<close>

type_synonym walk_out = "(string \<times> jsdoc) list \<times> string list"

definition out_append :: "walk_out \<Rightarrow> walk_out \<Rightarrow> walk_out" where
  "out_append a b = (fst a @ fst b, snd a @ snd b)"

text \<open>\<^verbatim>\<open>subcollectionName.replace(/[^a-zA-Z0-9]/g, '_')\<close>\<close>

definition sanitize :: "string \<Rightarrow> string" where
  "sanitize s = map (\<lambda>c. if is_alnum c then c else CHR ''_'') s"

text \<open>The fields stamped on one nested document, before it is written.\<close>

definition stamp_nested :: "string \<Rightarrow> string \<Rightarrow> nat \<Rightarrow> string \<Rightarrow> fsdoc \<Rightarrow> jsdoc" where
  "stamp_nested parentCollectionName parentDocId currentDepth subcollectionName doc =
     (let docData = fs_data doc;
          docData = (if \<not> truthy (get_field docData ''firestore_id'')
                     then set_field docData ''firestore_id'' (JStr (fs_id doc)) else docData);
          docData = set_field docData ''parent_collection'' (JStr parentCollectionName);
          docData = set_field docData ''parent_document_id'' (JStr parentDocId);
          docData = set_field docData ''collection_path''
                      (JStr (if currentDepth = 0
                             then parentCollectionName @ ''/'' @ parentDocId @ ''/'' @ subcollectionName
                             else to_string (get_field docData ''collection_path'') @ ''/'' @
                                  subcollectionName))
      in docData)"

text \<open>The loop over the documents of one nested collection.\<close>

fun walk_docs ::
  "(fsdoc \<Rightarrow> string \<Rightarrow> walk_out) \<Rightarrow> string \<Rightarrow> string \<Rightarrow> nat \<Rightarrow> nat \<Rightarrow> string \<Rightarrow> string
     \<Rightarrow> fsdoc list \<Rightarrow> walk_out" where
  "walk_docs recurse parentCollectionName parentDocId maxDepth currentDepth subcollectionName
     tableName [] = ([], [])"
| "walk_docs recurse parentCollectionName parentDocId maxDepth currentDepth subcollectionName
     tableName (doc # docs) =
     (let docData = stamp_nested parentCollectionName parentDocId currentDepth subcollectionName doc;
          nested = (if currentDepth + 1 < maxDepth then recurse doc tableName else ([], []))
      in out_append ([(tableName, docData)], [])
           (out_append nested
              (walk_docs recurse parentCollectionName parentDocId maxDepth currentDepth
                 subcollectionName tableName docs)))"

text \<open>
  The loop over the nested collections of one document. It runs inside the single
  try block of the function: a \<^verbatim>\<open>get()\<close> that rejects leaves the loop for the catch
  block, which prints the message and returns.
\<close>

fun walk_collections ::
  "(fsdoc \<Rightarrow> string \<Rightarrow> walk_out) \<Rightarrow> string \<Rightarrow> string \<Rightarrow> nat \<Rightarrow> nat \<Rightarrow> nat
     \<Rightarrow> fscoll list \<Rightarrow> walk_out" where
  "walk_collections recurse parentCollectionName parentDocId maxDepth currentDepth
     subcollectionLimit [] = ([], [])"
| "walk_collections recurse parentCollectionName parentDocId maxDepth currentDepth
     subcollectionLimit (collection # collections) =
     (let subcollectionName = coll_id collection;
          tablePrefix = (if currentDepth = 0 then parentCollectionName
                         else parentCollectionName @ ''_'' @ sanitize subcollectionName);
          tableName = (if currentDepth = 0 then parentCollectionName @ ''_'' @ subcollectionName
                       else tablePrefix)
      in case limit_get subcollectionLimit collection of
           Inl err \<Rightarrow> ([], [err])
         | Inr docs \<Rightarrow>
             out_append
               (walk_docs recurse parentCollectionName parentDocId maxDepth currentDepth
                  subcollectionName tableName docs)
               (walk_collections recurse parentCollectionName parentDocId maxDepth currentDepth
                  subcollectionLimit collections))"

function exportSubcollectionsAsSeparateFiles ::
  "fsdoc \<Rightarrow> string \<Rightarrow> string \<Rightarrow> nat \<Rightarrow> nat \<Rightarrow> nat \<Rightarrow> walk_out" where
  "exportSubcollectionsAsSeparateFiles docRef parentCollectionName parentDocId maxDepth
     currentDepth subcollectionLimit =
     (if currentDepth \<ge> maxDepth then ([], [])
      else case listCollections docRef of
             Inl err \<Rightarrow> ([], [err])
           | Inr collections \<Rightarrow>
               walk_collections
                 (\<lambda>doc tableName.
                    exportSubcollectionsAsSeparateFiles doc tableName (fs_id doc) maxDepth
                      (currentDepth + 1) subcollectionLimit)
                 parentCollectionName parentDocId maxDepth currentDepth subcollectionLimit
                 collections)"
  by pat_completeness auto
termination
  by (relation "measure (\<lambda>(docRef, pcn, pid, maxDepth, currentDepth, lim). maxDepth - currentDepth)")
     auto

section \<open>Document-Tree Exporter: paging over the root collection\<close>

text \<open>
  The process-wide state: \<^verbatim>\<open>recordCounters\<close>, the records handed to the record store,
  and whether \<^verbatim>\<open>cleanUp\<close> has run (the Done state).
\<close>

record export_state =
  recordCounters :: "string \<rightharpoonup> nat"
  written :: "(string \<times> jsdoc) list"
  finished :: bool

definition initial_state :: export_state where
  "initial_state = \<lparr> recordCounters = Map.empty, written = [], finished = False \<rparr>"

text \<open>
  Modelled from the spec: \<^verbatim>\<open>writeRecord\<close> of \<^verbatim>\<open>./utils\<close> is not among the sources.
  The spec has the record appended to its relation and the relation's count accumulated.
\<close>

definition writeRecord :: "string \<Rightarrow> jsdoc \<Rightarrow> export_state \<Rightarrow> export_state" where
  "writeRecord name doc st =
     st\<lparr> written := written st @ [(name, doc)],
         recordCounters := (recordCounters st)
           (name \<mapsto> (case recordCounters st name of None \<Rightarrow> 1 | Some n \<Rightarrow> n + 1)) \<rparr>"

text \<open>
  Modelled from the spec: \<^verbatim>\<open>cleanUp\<close> of \<^verbatim>\<open>./utils\<close> is not among the sources. The
  spec has it finalize the record store when paging is done.
\<close>

definition cleanUp :: "export_state \<Rightarrow> export_state" where
  "cleanUp st = st\<lparr>finished := True\<rparr>"

text \<open>
  The exporter's surroundings: the root collections of the database and the optional
  \<^verbatim>\<open>processDocument\<close> hook, a transform of the document.
\<close>

record exporter_env =
  db_collection :: "string \<Rightarrow> fscoll"
  processDocument :: "(string \<Rightarrow> jsdoc \<Rightarrow> jsdoc) option"

text \<open>The identity field of a root document: four candidate names, in order.\<close>

definition stamp_root :: "fsdoc \<Rightarrow> jsdoc" where
  "stamp_root fsdoc =
     (let doc = fs_data fsdoc in
      if \<not> truthy (get_field doc ''firestore_id'')
        then set_field doc ''firestore_id'' (JStr (fs_id fsdoc))
      else if \<not> truthy (get_field doc ''firestoreid'')
        then set_field doc ''firestoreid'' (JStr (fs_id fsdoc))
      else if \<not> truthy (get_field doc ''original_id'')
        then set_field doc ''original_id'' (JStr (fs_id fsdoc))
      else if \<not> truthy (get_field doc ''originalid'')
        then set_field doc ''originalid'' (JStr (fs_id fsdoc))
      else doc)"

text \<open>The loop over \<^verbatim>\<open>snapshot.docs\<close> in \<^verbatim>\<open>getBatch\<close>; \<open>data\<close> is the array it fills.\<close>

fun batch_docs ::
  "exporter_env \<Rightarrow> string \<Rightarrow> bool \<Rightarrow> nat \<Rightarrow> nat \<Rightarrow> fsdoc list \<Rightarrow> jsdoc list \<times> export_state
     \<Rightarrow> jsdoc list \<times> export_state" where
  "batch_docs env collectionName includeSubcollections maxDepth subcollectionLimit []
     (data, st) = (data, st)"
| "batch_docs env collectionName includeSubcollections maxDepth subcollectionLimit
     (fsdoc # fsdocs) (data, st) =
     (let doc = stamp_root fsdoc;
          st = (if includeSubcollections
                then foldl (\<lambda>st (table, d). writeRecord table d st) st
                       (fst (exportSubcollectionsAsSeparateFiles fsdoc collectionName
                               (fs_id fsdoc) maxDepth 0 subcollectionLimit))
                else st);
          doc = (case processDocument env of None \<Rightarrow> doc | Some hook \<Rightarrow> hook collectionName doc);
          st = writeRecord collectionName doc st
      in batch_docs env collectionName includeSubcollections maxDepth subcollectionLimit fsdocs
           (data @ [doc], st))"

text \<open>
  \<^verbatim>\<open>getBatch\<close> returns \<^verbatim>\<open>{data, error}\<close>. The parameter \<open>offset\<close> is received and
  not used: the query is \<^verbatim>\<open>db.collection(collectionName).limit(batchSize).get()\<close>.
\<close>

definition getBatch ::
  "exporter_env \<Rightarrow> string \<Rightarrow> nat \<Rightarrow> nat \<Rightarrow> nat \<Rightarrow> bool \<Rightarrow> nat \<Rightarrow> nat \<Rightarrow> export_state
     \<Rightarrow> (jsdoc list \<times> string option) \<times> export_state" where
  "getBatch env collectionName offset batchSize limit includeSubcollections maxDepth
     subcollectionLimit st =
     (let st = (if recordCounters st collectionName = None
                then st\<lparr>recordCounters := (recordCounters st)(collectionName \<mapsto> 0)\<rparr> else st);
          count = (case recordCounters st collectionName of None \<Rightarrow> 0 | Some n \<Rightarrow> n)
      in if limit > 0 \<and> count \<ge> limit then (([], None), st)
         else
           (let batchSize = (if limit > 0 then min batchSize (limit - count) else batchSize)
            in case limit_get batchSize (db_collection env collectionName) of
                 Inl err \<Rightarrow> (([], Some err), st)
               | Inr docs \<Rightarrow>
                   (let (data, st) = batch_docs env collectionName includeSubcollections maxDepth
                                       subcollectionLimit docs ([], st)
                    in ((data, None), st))))"

text \<open>
  \<^verbatim>\<open>getAll\<close> calls itself as long as a batch is not empty, with nothing that bounds
  the number of calls. The model counts them down from \<open>fuel\<close>: \<open>None\<close> is "not done
  after \<open>fuel\<close> fetches", \<open>Some st\<close> the state when \<^verbatim>\<open>cleanUp\<close> has run.
\<close>

fun getAll ::
  "nat \<Rightarrow> exporter_env \<Rightarrow> string \<Rightarrow> nat \<Rightarrow> nat \<Rightarrow> nat \<Rightarrow> bool \<Rightarrow> nat \<Rightarrow> nat \<Rightarrow> export_state
     \<Rightarrow> export_state option" where
  "getAll 0 env collectionName offset batchSize limit includeSubcollections maxDepth
     subcollectionLimit st = None"
| "getAll (Suc fuel) env collectionName offset batchSize limit includeSubcollections maxDepth
     subcollectionLimit st =
     (let ((data, error), st) = getBatch env collectionName offset batchSize limit
                                  includeSubcollections maxDepth subcollectionLimit st
      in if length data > 0
         then getAll fuel env collectionName (offset + length data) batchSize limit
                includeSubcollections maxDepth subcollectionLimit st
         else Some (cleanUp st))"

section \<open>Auxiliary notions for the proofs\<close>

text \<open>
  What the branches of \<^verbatim>\<open>parseCloudFunctions\<close> do with a pattern key: the type a
  pushed record gets, the keys of the four factory and export branches, and the keys
  of the \<^verbatim>\<open>continue\<close> branch.
\<close>

definition record_type :: "string \<Rightarrow> string" where
  "record_type type =
     (if type = ''http_factory'' \<or> type = ''export_http'' then ''https''
      else if type = ''callable_factory'' \<or> type = ''export_callable'' then ''callable''
      else if type = ''firestore_factory'' \<or> type = ''export_firestore'' then ''firestore''
      else if type = ''scheduled_factory'' \<or> type = ''export_scheduled'' then ''scheduler''
      else normalizeType type)"

definition factory_key :: "string \<Rightarrow> bool" where
  "factory_key type =
     ((type = ''http_factory'' \<or> type = ''export_http'')
      \<or> (type = ''callable_factory'' \<or> type = ''export_callable'')
      \<or> (type = ''firestore_factory'' \<or> type = ''export_firestore'')
      \<or> (type = ''scheduled_factory'' \<or> type = ''export_scheduled''))"

definition handler_key :: "string \<Rightarrow> bool" where
  "handler_key type = (str_includes type ''handler'' \<or> str_includes type ''async_handler'')"


section \<open>Example inputs\<close>

text \<open>
  A file with one scheduled-factory declaration and its handler, and the answers of the
  source's regular expressions on this text: the export pattern matches at index 0, the
  handler pattern at index 64 (its key is skipped), the handler expression built for
  the name \<^verbatim>\<open>nightly\<close> at index 7, and the export expression matches the first
  statement.
\<close>

definition demo_source :: string where
  "demo_source =
     ''export const nightly = createScheduledFunction(nightlyHandler); '' @
     ''const nightlyHandler = (ctx) => { return sweep(ctx) }''"

definition demo_regex :: regex_env where
  "demo_regex =
     \<lparr> exec_all = (\<lambda>type content.
          if type = ''export_scheduled''
          then [\<lparr> m_index = 0, m_text = ''export const nightly = createScheduledFunction'',
                  m_name = ''nightly'', m_group2 = None, m_group3 = None \<rparr>]
          else if type = ''handler''
          then [\<lparr> m_index = 64, m_text = ''const nightlyHandler = (ctx) =>'',
                  m_name = ''nightlyHandler'', m_group2 = None, m_group3 = None \<rparr>]
          else []),
       handler_exec = (\<lambda>functionName content. Inr (Some 7)),
       export_exec = (\<lambda>functionName content.
          Inr (Some ''export const nightly = createScheduledFunction(nightlyHandler);'')),
       async_exec = (\<lambda>content. None) \<rparr>"



text \<open>
  A small store: the root collection \<^verbatim>\<open>Schools\<close> with two documents. The first school
  has the nested collection \<^verbatim>\<open>Classes\<close>, whose document has the nested collection
  \<^verbatim>\<open>Students\<close>. The second school has two nested collections, and the fetch of the
  first of them is rejected.
\<close>

definition demo_student :: fsdoc where
  "demo_student = FsDoc ''p1'' [(''name'', JStr ''Ada'')] (Inr [])"

definition demo_class :: fsdoc where
  "demo_class =
     FsDoc ''c1'' [(''title'', JStr ''Maths'')] (Inr [FsColl ''Students'' (Inr [demo_student])])"

definition demo_school :: fsdoc where
  "demo_school =
     FsDoc ''s1'' [(''name'', JStr ''North'')] (Inr [FsColl ''Classes'' (Inr [demo_class])])"

definition demo_school_faulty :: fsdoc where
  "demo_school_faulty =
     FsDoc ''s2'' [(''name'', JStr ''South'')]
       (Inr [FsColl ''Archive'' (Inl ''permission denied''),
             FsColl ''Classes'' (Inr [demo_class])])"

definition demo_env :: exporter_env where
  "demo_env =
     \<lparr> db_collection = (\<lambda>name. if name = ''Schools''
                                then FsColl ''Schools'' (Inr [demo_school, demo_school_faulty])
                                else FsColl name (Inr [])),
       processDocument = None \<rparr>"

text \<open>A nested document that already has a field named \<^verbatim>\<open>firestore_id\<close>.\<close>

definition demo_legacy :: fsdoc where
  "demo_legacy = FsDoc ''c9'' [(''firestore_id'', JStr ''legacy-7'')] (Inr [])"

definition demo_legacy_parent :: fsdoc where
  "demo_legacy_parent =
     FsDoc ''s3'' [(''name'', JStr ''West'')] (Inr [FsColl ''Classes'' (Inr [demo_legacy])])"


section \<open>Properties of the Body Extractor\<close>

lemma scan_body_no_open:
  "CHR ''{'' \<notin> set cs \<Longrightarrow> scan_body depth False body cs = body"
  by (induction cs arbitrary: depth) (auto simp: Let_def)

lemma scan_body_skip_plain:
  "CHR ''{'' \<notin> set pre \<Longrightarrow> CHR ''}'' \<notin> set pre \<Longrightarrow>
   scan_body depth False body (pre @ rest) = scan_body depth False body rest"
  by (induction pre) (auto simp: Let_def)

text \<open>Inside a block that closes at its end, the scan copies the block and stops.\<close>

lemma scan_body_closes:
  "closes_at_end d cs \<Longrightarrow> 0 < d \<Longrightarrow>
   scan_body (int d) True body (cs @ post) = body @ cs"
proof (induction d cs arbitrary: body rule: closes_at_end.induct)
  case (1 d)
  then show ?case by simp
next
  case (2 d c cs)
  show ?case
  proof (cases "c = CHR ''{''")
    case True
    with 2 have "scan_body (int (Suc d)) True (body @ [c]) (cs @ post) = (body @ [c]) @ cs"
      by simp
    with True show ?thesis by (simp add: Let_def add.commute)
  next
    case nopen: False
    show ?thesis
    proof (cases "c = CHR ''}''")
      case True
      show ?thesis
      proof (cases d)
        case 0
        with 2 show ?thesis by simp
      next
        case (Suc k)
        show ?thesis
        proof (cases k)
          case 0
          with Suc True nopen 2 show ?thesis by (simp add: Let_def)
        next
          case (Suc j)
          with \<open>d = Suc k\<close> True nopen 2
          have "scan_body (int (Suc j)) True (body @ [c]) (cs @ post) = (body @ [c]) @ cs"
            by simp
          with Suc \<open>d = Suc k\<close> True nopen show ?thesis by (simp add: Let_def)
        qed
      qed
    next
      case False
      with nopen 2 have "scan_body (int d) True (body @ [c]) (cs @ post) = (body @ [c]) @ cs"
        by simp
      with False nopen show ?thesis by (simp add: Let_def)
    qed
  qed
qed

lemma closes_at_end_counts:
  "closes_at_end d cs \<Longrightarrow> 0 < d \<Longrightarrow>
   count_list cs (CHR ''{'') + d = count_list cs (CHR ''}'')"
proof (induction d cs rule: closes_at_end.induct)
  case (1 d)
  then show ?case by simp
next
  case (2 d c cs)
  then show ?case
    by (cases d; cases "d - 1") (auto split: if_splits)
qed

lemma closes_at_end_last:
  "closes_at_end d cs \<Longrightarrow> 0 < d \<Longrightarrow> cs \<noteq> [] \<and> last cs = CHR ''}''"
proof (induction d cs rule: closes_at_end.induct)
  case (1 d)
  then show ?case by simp
next
  case (2 d c cs)
  then show ?case
    by (cases d; cases "d - 1") (auto split: if_splits)
qed

lemma closes_at_end_prefix:
  "closes_at_end d cs \<Longrightarrow> 0 < d \<Longrightarrow> n < length cs \<Longrightarrow>
   count_list (take n cs) (CHR ''}'') < count_list (take n cs) (CHR ''{'') + d"
proof (induction d cs arbitrary: n rule: closes_at_end.induct)
  case (1 d)
  then show ?case by simp
next
  case (2 d c cs)
  show ?case
  proof (cases n)
    case 0
    with 2 show ?thesis by simp
  next
    case (Suc m)
    with 2 show ?thesis
      by (cases d; cases "d - 1") (auto split: if_splits)
  qed
qed

text \<open>
  Claim C5, as the code has it. When, from the start offset on, the text is some
  brace-free text, then a block that opens with a brace and is closed by its matching
  brace, then anything, the Body Extractor returns exactly that block: it has as many
  open braces as close braces, starts with an open brace, ends with a close brace, and
  that close brace is the matching one (in every shorter non-empty prefix the open braces
  outnumber the close braces).
\<close>

theorem extractFunctionBody_balanced:
  assumes split: "drop startIndex content = pre @ blk @ post"
    and plain: "CHR ''{'' \<notin> set pre" "CHR ''}'' \<notin> set pre"
    and blk: "balanced_block blk"
  shows "extractFunctionBody content startIndex = blk
       \<and> count_list blk (CHR ''{'') = count_list blk (CHR ''}'')
       \<and> take 1 blk = ''{'' \<and> last blk = CHR ''}''
       \<and> (\<forall>n. 0 < n \<and> n < length blk \<longrightarrow>
             count_list (take n blk) (CHR ''}'') < count_list (take n blk) (CHR ''{''))"
proof -
  from blk obtain cs where b: "blk = CHR ''{'' # cs" and c: "closes_at_end (Suc 0) cs"
    by (cases blk) auto
  have "scan_body 0 False [] (pre @ blk @ post) = scan_body 0 False [] (blk @ post)"
    using plain by (rule scan_body_skip_plain)
  also have "\<dots> = scan_body (int (Suc 0)) True [CHR ''{''] (cs @ post)"
    using closes_at_end_last [OF c] by (simp add: b Let_def)
  also have "\<dots> = [CHR ''{''] @ cs"
    using c by (rule scan_body_closes) simp
  finally have 1: "extractFunctionBody content startIndex = blk"
    by (simp add: extractFunctionBody_def split b)
  have 2: "count_list blk (CHR ''{'') = count_list blk (CHR ''}'')"
    using closes_at_end_counts [OF c] by (simp add: b)
  have 3: "last blk = CHR ''}''"
    using closes_at_end_last [OF c] by (simp add: b)
  have 4: "count_list (take n blk) (CHR ''}'') < count_list (take n blk) (CHR ''{'')"
    if "0 < n" "n < length blk" for n
  proof -
    from that obtain m where n: "n = Suc m" and m: "m < length cs"
      by (cases n) (auto simp: b)
    from closes_at_end_prefix [OF c _ m] show ?thesis
      by (simp add: b n)
  qed
  from 1 2 3 4 show ?thesis by (simp add: b)
qed

text \<open>
  The theorem at a concrete text: the arrow function's block is returned, and the
  close brace in the trailing comment is not reached.
\<close>

theorem extractFunctionBody_balanced_witness:
  "drop 2 ''f = () => { if (x) { y } } // }'' = ''= () => '' @ ''{ if (x) { y } }'' @ '' // }''
   \<and> CHR ''{'' \<notin> set ''= () => '' \<and> CHR ''}'' \<notin> set ''= () => ''
   \<and> balanced_block ''{ if (x) { y } }''
   \<and> extractFunctionBody ''f = () => { if (x) { y } } // }'' 2 = ''{ if (x) { y } }''
   \<and> count_list ''{ if (x) { y } }'' (CHR ''{'') = count_list ''{ if (x) { y } }'' (CHR ''}'')"
proof -
  have 1: "drop 2 ''f = () => { if (x) { y } } // }''
             = ''= () => '' @ ''{ if (x) { y } }'' @ '' // }''"
    by code_simp
  have 2: "CHR ''{'' \<notin> set ''= () => ''" "CHR ''}'' \<notin> set ''= () => ''"
    by simp_all
  have 3: "balanced_block ''{ if (x) { y } }''"
    by code_simp
  from extractFunctionBody_balanced [OF 1 2 3] 1 2 3 show ?thesis
    by blast
qed

text \<open>
  Claim C5 as stated fails where the block is never closed: the extractor returns the
  text from the first open brace to the end of the input, with two open braces and one
  close brace.
\<close>

theorem extractFunctionBody_unbalanced_counterexample:
  "extractFunctionBody ''f = () => { if (x) { y }'' 0 = ''{ if (x) { y }''
   \<and> count_list (extractFunctionBody ''f = () => { if (x) { y }'' 0) (CHR ''{'')
       \<noteq> count_list (extractFunctionBody ''f = () => { if (x) { y }'' 0) (CHR ''}'')"
  by code_simp

text \<open>
  A close brace ahead of the first open brace drives the depth counter below zero, and
  the scan then stops one close brace early.
\<close>

lemma extractFunctionBody_leading_close:
  "extractFunctionBody ''}{{}}'' 0 = ''{{}''"
  by code_simp

section \<open>Properties of the API Rewriter\<close>

lemma starts_with_append: "starts_with (p @ s) p"
  by (induction p) auto

lemma str_includes_append: "str_includes s p \<Longrightarrow> str_includes (pre @ s) p"
  by (induction pre) auto

text \<open>
  Claim C6. For every input text, the empty text included, the rewriter returns text:
  no input text reaches the exception (only a missing body does), and each of the
  sixteen replacements is a total function (the termination proof of \<open>replace_all\<close>).
\<close>

theorem convertFirebaseToSupabase_total:
  "(\<exists>out. convertFirebaseToSupabase (Some B) = Inr out)
   \<and> convertFirebaseToSupabase (Some []) = Inr []"
proof
  show "\<exists>out. convertFirebaseToSupabase (Some B) = Inr out"
    by (simp add: convertFirebaseToSupabase_def Let_def)
  have "apply_rules [] = []"
    by (simp add: apply_rules_def rewrite_rules_def)
  then show "convertFirebaseToSupabase (Some []) = Inr []"
    by (simp add: convertFirebaseToSupabase_def)
qed

text \<open>The theorem at a text with unbalanced nesting and a call that no rule knows.\<close>

theorem convertFirebaseToSupabase_total_witness:
  "(\<exists>out. convertFirebaseToSupabase (Some ''}{ ((admin.x( '') = Inr out)
   \<and> convertFirebaseToSupabase (Some ''}{ ((admin.x( '')
       = Inr (admin_marker @ ''}{ ((admin.x( '')"
proof
  show "\<exists>out. convertFirebaseToSupabase (Some ''}{ ((admin.x( '') = Inr out"
    using convertFirebaseToSupabase_total [of "''}{ ((admin.x( ''"] by blast
  show "convertFirebaseToSupabase (Some ''}{ ((admin.x( '')
          = Inr (admin_marker @ ''}{ ((admin.x( '')"
    by code_simp
qed

text \<open>A record without a body is the one input that makes the rewriter throw.\<close>

lemma convertFirebaseToSupabase_undefined:
  "\<exists>e. convertFirebaseToSupabase None = Inl e"
  by (simp add: convertFirebaseToSupabase_def)

text \<open>The rules at work, in the order of the table.\<close>

lemma convertFirebaseToSupabase_example:
  "convertFirebaseToSupabase
     (Some (''admin.firestore().collection('' @ [CHR 0x27] @ ''users'' @ [CHR 0x27] @
            '').doc('' @ [CHR 0x22] @ ''a-1'' @ [CHR 0x22] @ '').get(); res.status(404).send(x)''))
   = Inr (''supabaseClient.from('' @ [CHR 0x27] @ ''users'' @ [CHR 0x27] @
          '').select().eq('' @ [CHR 0x27] @ ''id'' @ [CHR 0x27] @ '', '' @
          [CHR 0x27] @ ''a-1'' @ [CHR 0x27] @ '').single(); return new Response(404, x)'')"
  by code_simp

text \<open>
  Claim C7. When the text left by the rewrite rules still contains \<^verbatim>\<open>admin.\<close> or
  \<^verbatim>\<open>functions.\<close>, the rewriter's output starts with a review marker, ends with the
  rewritten text unchanged, and so still contains the residual call.
\<close>

theorem residual_call_marked:
  assumes tok: "tok = ''admin.'' \<or> tok = ''functions.''"
    and residual: "str_includes (apply_rules B) tok"
  shows "\<exists>out. convertFirebaseToSupabase (Some B) = Inr out
           \<and> (starts_with out admin_marker \<or> starts_with out functions_marker)
           \<and> (\<exists>marker. out = marker @ apply_rules B)
           \<and> str_includes out tok"
proof -
  define r where "r = apply_rules B"
  define r1 where "r1 = (if str_includes r ''admin.'' then admin_marker @ r else r)"
  define r2 where "r2 = (if str_includes r1 ''functions.'' then functions_marker @ r1 else r1)"
  have out: "convertFirebaseToSupabase (Some B) = Inr r2"
    by (simp add: convertFirebaseToSupabase_def Let_def r_def r1_def r2_def)
  have r1_incl: "str_includes r1 t" if "str_includes r t" for t
    using that by (simp add: r1_def str_includes_append)
  have r2_incl: "str_includes r2 t" if "str_includes r t" for t
    using r1_incl [OF that] by (simp add: r2_def str_includes_append)
  have suffix: "\<exists>marker. r2 = marker @ r"
  proof -
    have "\<exists>m1. r1 = m1 @ r" by (auto simp: r1_def)
    then obtain m1 where m1: "r1 = m1 @ r" ..
    have "\<exists>m2. r2 = m2 @ r1" by (auto simp: r2_def)
    then obtain m2 where "r2 = m2 @ r1" ..
    with m1 have "r2 = (m2 @ m1) @ r" by simp
    then show ?thesis ..
  qed
  have marked: "starts_with r2 admin_marker \<or> starts_with r2 functions_marker"
  proof (cases "str_includes r1 ''functions.''")
    case True
    then show ?thesis by (simp add: r2_def starts_with_append)
  next
    case False
    then have no_fn: "\<not> str_includes r ''functions.''"
      using r1_incl by blast
    with tok residual have "str_includes r ''admin.''"
      by (auto simp: r_def)
    with False show ?thesis
      by (simp add: r2_def r1_def starts_with_append)
  qed
  from residual have "str_includes r2 tok"
    unfolding r_def [symmetric] by (rule r2_incl)
  with out suffix marked show ?thesis
    by (auto simp: r_def)
qed

text \<open>
  The theorem at a body with a messaging call of the admin namespace (scenario E of the
  spec): no rule rewrites it, and the output is the marker followed by the body.
\<close>

theorem residual_call_marked_witness:
  "str_includes (apply_rules ''await admin.messaging().send(msg);'') ''admin.''
   \<and> convertFirebaseToSupabase (Some ''await admin.messaging().send(msg);'')
       = Inr (admin_marker @ ''await admin.messaging().send(msg);'')
   \<and> (\<exists>out. convertFirebaseToSupabase (Some ''await admin.messaging().send(msg);'') = Inr out
           \<and> (starts_with out admin_marker \<or> starts_with out functions_marker)
           \<and> (\<exists>marker. out = marker @ apply_rules ''await admin.messaging().send(msg);'')
           \<and> str_includes out ''admin.'')"
proof -
  have h: "str_includes (apply_rules ''await admin.messaging().send(msg);'') ''admin.''"
    by code_simp
  have v: "convertFirebaseToSupabase (Some ''await admin.messaging().send(msg);'')
             = Inr (admin_marker @ ''await admin.messaging().send(msg);'')"
    by code_simp
  from residual_call_marked [OF _ h] h v show ?thesis
    by blast
qed

section \<open>Properties of the Function Scanner\<close>

text \<open>
  The type of a pushed record depends on the pattern key alone: the four factory and
  export branches set it, every other key keeps what \<open>normalizeType\<close> gave. A pushed
  record also has a body.
\<close>

lemma new_record_type:
  assumes "new_record filename type m = Some func"
  shows "fn_type func = record_type type \<and> (factory_key type \<or> \<not> handler_key type)"
proof -
  define A where "A \<longleftrightarrow> type = ''http_factory'' \<or> type = ''export_http''"
  define B where "B \<longleftrightarrow> type = ''callable_factory'' \<or> type = ''export_callable''"
  define C where "C \<longleftrightarrow> type = ''firestore_factory'' \<or> type = ''export_firestore''"
  define D where "D \<longleftrightarrow> type = ''scheduled_factory'' \<or> type = ''export_scheduled''"
  define H where "H \<longleftrightarrow> str_includes type ''handler'' \<or> str_includes type ''async_handler''"
  have rt: "record_type type =
          (if A then ''https'' else if B then ''callable'' else if C then ''firestore''
           else if D then ''scheduler'' else normalizeType type)"
    unfolding record_type_def A_def B_def C_def D_def ..
  have fk: "factory_key type \<longleftrightarrow> A \<or> B \<or> C \<or> D"
    unfolding factory_key_def A_def B_def C_def D_def ..
  have hk: "handler_key type \<longleftrightarrow> H"
    unfolding handler_key_def H_def ..
  from assms have
    "(if A then Some ''https'' else if B then Some ''callable'' else if C then Some ''firestore''
      else if D then Some ''scheduler'' else if H then None else Some (normalizeType type))
     = Some (fn_type func)"
    unfolding new_record_def Let_def A_def [symmetric] B_def [symmetric] C_def [symmetric]
      D_def [symmetric] H_def [symmetric]
    by (auto split: if_splits)
  then show ?thesis
    unfolding rt fk hk by (auto split: if_splits)
qed

lemma scan_match_type:
  assumes "scan_match env content filename type m = Inr (Some func)"
  shows "fn_type func = record_type type
       \<and> (factory_key type \<or> \<not> handler_key type)
       \<and> (\<exists>b. fn_body func = Some b \<and> 10 < length b)"
proof -
  from assms obtain func0 where n: "new_record filename type m = Some func0"
    unfolding scan_match_def by (cases "new_record filename type m") auto
  from assms have "fn_type func = fn_type func0 \<and> (\<exists>b. fn_body func = Some b \<and> 10 < length b)"
    unfolding scan_match_def n Let_def
    by (auto split: if_splits sum.splits)
  with new_record_type [OF n] show ?thesis by simp
qed

lemma new_record_name:
  assumes "new_record filename type m = Some func"
  shows "fn_name func = m_name m"
proof -
  define A where "A \<longleftrightarrow> type = ''http_factory'' \<or> type = ''export_http''"
  define B where "B \<longleftrightarrow> type = ''callable_factory'' \<or> type = ''export_callable''"
  define C where "C \<longleftrightarrow> type = ''firestore_factory'' \<or> type = ''export_firestore''"
  define D where "D \<longleftrightarrow> type = ''scheduled_factory'' \<or> type = ''export_scheduled''"
  define H where "H \<longleftrightarrow> str_includes type ''handler'' \<or> str_includes type ''async_handler''"
  from assms have
    "(if A then Some (m_name m) else if B then Some (m_name m) else if C then Some (m_name m)
      else if D then Some (m_name m) else if H then None else Some (m_name m))
     = Some (fn_name func)"
    unfolding new_record_def Let_def A_def [symmetric] B_def [symmetric] C_def [symmetric]
      D_def [symmetric] H_def [symmetric]
    by (auto split: if_splits)
  then show ?thesis
    by (auto split: if_splits)
qed

text \<open>The registry, key by key.\<close>

lemma registry_types:
  "list_all
     (\<lambda>type. record_type type \<in> set template_keys \<or> (\<not> factory_key type \<and> handler_key type))
     pattern_keys"
  by code_simp

lemma scan_match_registered:
  assumes key: "type \<in> set pattern_keys"
    and pushed: "scan_match env content filename type m = Inr (Some func)"
  shows "fn_type func \<in> set template_keys \<and> (\<exists>b. fn_body func = Some b)"
proof -
  from registry_types key
  have "record_type type \<in> set template_keys \<or> (\<not> factory_key type \<and> handler_key type)"
    unfolding list_all_iff by blast
  with scan_match_type [OF pushed] show ?thesis by auto
qed

lemma scan_matches_registered:
  assumes "type \<in> set pattern_keys"
    and "scan_matches env content filename type ms funcs = Inr funcs'"
    and "\<forall>f \<in> set funcs. fn_type f \<in> set template_keys \<and> (\<exists>b. fn_body f = Some b)"
  shows "\<forall>f \<in> set funcs'. fn_type f \<in> set template_keys \<and> (\<exists>b. fn_body f = Some b)"
  using assms
proof (induction ms arbitrary: funcs)
  case Nil
  then show ?case by simp
next
  case (Cons m ms)
  show ?case
  proof (cases "scan_match env content filename type m")
    case (Inl e)
    with Cons.prems show ?thesis by simp
  next
    case (Inr res)
    show ?thesis
    proof (cases res)
      case None
      with Inr Cons show ?thesis by simp
    next
      case (Some func)
      with Inr Cons.prems(2)
      have run: "scan_matches env content filename type ms (funcs @ [func]) = Inr funcs'"
        by simp
      from scan_match_registered [OF Cons.prems(1)] Inr Some
      have "fn_type func \<in> set template_keys \<and> (\<exists>b. fn_body func = Some b)"
        by simp
      with Cons.prems(3)
      have "\<forall>f \<in> set (funcs @ [func]).
              fn_type f \<in> set template_keys \<and> (\<exists>b. fn_body f = Some b)"
        by auto
      from Cons.IH [OF Cons.prems(1) run this] show ?thesis .
    qed
  qed
qed

lemma scan_patterns_registered:
  assumes "set types \<subseteq> set pattern_keys"
    and "scan_patterns env content filename types funcs = Inr funcs'"
    and "\<forall>f \<in> set funcs. fn_type f \<in> set template_keys \<and> (\<exists>b. fn_body f = Some b)"
  shows "\<forall>f \<in> set funcs'. fn_type f \<in> set template_keys \<and> (\<exists>b. fn_body f = Some b)"
  using assms
proof (induction types arbitrary: funcs)
  case Nil
  then show ?case by simp
next
  case (Cons type types)
  show ?case
  proof (cases "scan_matches env content filename type (exec_all env type content) funcs")
    case (Inl e)
    with Cons.prems show ?thesis by simp
  next
    case (Inr mid)
    from Cons.prems(1) have key: "type \<in> set pattern_keys" and rest: "set types \<subseteq> set pattern_keys"
      by auto
    from scan_matches_registered [OF key Inr Cons.prems(3)]
    have mid: "\<forall>f \<in> set mid. fn_type f \<in> set template_keys \<and> (\<exists>b. fn_body f = Some b)" .
    from Cons.prems(2) Inr
    have "scan_patterns env content filename types mid = Inr funcs'"
      by simp
    from Cons.IH [OF rest this mid] show ?thesis .
  qed
qed

text \<open>
  Claim C9, as the code has it. Every record that the Function Scanner returns has one
  of the seven types with a registered template, and \<open>generateEdgeFunction\<close> returns
  code for it (neither \<^verbatim>\<open>null\<close> nor an exception). The handler patterns push nothing;
  for the keys \<^verbatim>\<open>scheduled_factory\<close> and \<^verbatim>\<open>export_scheduled\<close> the type comes from the
  scanner's own branch, for every other key from \<open>normalizeType\<close>.
\<close>

theorem scanner_types_registered:
  assumes "parseCloudFunctions env content filename = Inr funcs"
    and "func \<in> set funcs"
  shows "fn_type func \<in> set template_keys
       \<and> (\<exists>code. fst (generateEdgeFunction proto tpl func r) = Inr (GText code) \<and> code \<noteq> [])"
proof -
  from scan_patterns_registered [of pattern_keys env content filename "[]" funcs] assms
  have ok: "fn_type func \<in> set template_keys \<and> (\<exists>b. fn_body func = Some b)"
    by (simp add: parseCloudFunctions_def)
  then obtain b where "fn_body func = Some b" by blast
  with ok show ?thesis
    by (simp add: generateEdgeFunction_def convertFirebaseToSupabase_def Let_def)
qed

text \<open>The theorem at the scheduled-factory example.\<close>

theorem scanner_types_registered_witness:
  "parseCloudFunctions demo_regex demo_source ''index.js''
     = Inr [\<lparr> fn_name = ''nightly'', fn_type = ''scheduler'', fn_source = ''index.js'',
              fn_raw = Some ''export const nightly = createScheduledFunction'',
              fn_document = None, fn_trigger = None, fn_schedule = None,
              fn_body = Some ''{ return sweep(ctx) }'', fn_url = None \<rparr>]
   \<and> ''scheduler'' \<in> set template_keys
   \<and> (\<exists>code. fst (generateEdgeFunction object_prototype (\<lambda>key f body. body)
         \<lparr> fn_name = ''nightly'', fn_type = ''scheduler'', fn_source = ''index.js'',
           fn_raw = Some ''export const nightly = createScheduledFunction'',
           fn_document = None, fn_trigger = None, fn_schedule = None,
           fn_body = Some ''{ return sweep(ctx) }'', fn_url = None \<rparr> new_report)
         = Inr (GText code) \<and> code \<noteq> [])"
proof -
  have run: "parseCloudFunctions demo_regex demo_source ''index.js''
     = Inr [\<lparr> fn_name = ''nightly'', fn_type = ''scheduler'', fn_source = ''index.js'',
              fn_raw = Some ''export const nightly = createScheduledFunction'',
              fn_document = None, fn_trigger = None, fn_schedule = None,
              fn_body = Some ''{ return sweep(ctx) }'', fn_url = None \<rparr>]"
    by code_simp
  from scanner_types_registered [OF run, of _ object_prototype "\<lambda>key f body. body" new_report] run
  show ?thesis by simp
qed

text \<open>
  Claim C9 as stated has \<open>normalizeType\<close> map every registry key outside the handler
  families into the seven template keys. It leaves \<^verbatim>\<open>scheduled_factory\<close> as it is: the
  key contains \<^verbatim>\<open>scheduled\<close>, not \<^verbatim>\<open>scheduler\<close>.
\<close>

theorem normalizeType_scheduled_factory_counterexample:
  "''scheduled_factory'' \<in> set pattern_keys
   \<and> \<not> str_includes ''scheduled_factory'' ''handler''
   \<and> normalizeType ''scheduled_factory'' = ''scheduled_factory''
   \<and> normalizeType ''scheduled_factory'' \<notin> set template_keys"
  by code_simp

text \<open>
  Claim C10. When no open brace stands at or after the start offset, the Body Extractor
  returns the empty text, and the scanner pushes no record for a match whose body is
  extracted at that offset: a match of a pattern with an inline body at that index, or
  a match of a factory, export or ES6 pattern whose handler binding is found at that
  index.
\<close>

theorem no_open_brace_no_record:
  assumes "CHR ''{'' \<notin> set (drop startIndex content)"
  shows "extractFunctionBody content startIndex = []
       \<and> (\<not> (str_includes type ''_es6'' \<or> str_includes type ''_factory''
                \<or> str_includes type ''export_'')
            \<and> m_index m = startIndex
            \<longrightarrow> scan_match env content filename type m = Inr None)
       \<and> ((str_includes type ''_es6'' \<or> str_includes type ''_factory''
                \<or> str_includes type ''export_'')
            \<and> handler_exec env (m_name m) content = Inr (Some startIndex)
            \<longrightarrow> scan_match env content filename type m = Inr None)"
proof -
  have empty: "extractFunctionBody content startIndex = []"
    using assms by (simp add: extractFunctionBody_def scan_body_no_open)
  have inline: "scan_match env content filename type m = Inr None"
    if "\<not> (str_includes type ''_es6'' \<or> str_includes type ''_factory''
             \<or> str_includes type ''export_'')" "m_index m = startIndex"
  proof (cases "new_record filename type m")
    case None
    then show ?thesis by (simp add: scan_match_def)
  next
    case (Some func)
    with that empty show ?thesis
      by (simp add: scan_match_def Let_def)
  qed
  have modern: "scan_match env content filename type m = Inr None"
    if "str_includes type ''_es6'' \<or> str_includes type ''_factory''
          \<or> str_includes type ''export_''"
       "handler_exec env (m_name m) content = Inr (Some startIndex)"
  proof (cases "new_record filename type m")
    case None
    then show ?thesis by (simp add: scan_match_def)
  next
    case (Some func)
    from new_record_name [OF Some] that(2)
    have "extractModernFunctionBody env content (fn_name func) = Inr []"
      by (simp add: extractModernFunctionBody_def empty)
    with Some that(1) show ?thesis
      by (simp add: scan_match_def Let_def)
  qed
  from empty inline modern show ?thesis by blast
qed

text \<open>
  The theorem at an export that passes a handler by name: the pattern matches, nothing
  after it opens a block, and no record is pushed. The body of this pattern is inline,
  so none of the regular-expression answers is consulted.
\<close>

theorem no_open_brace_no_record_witness:
  "CHR ''{'' \<notin> set (drop 0 ''exports.api = functions.https.onRequest(app);'')
   \<and> extractFunctionBody ''exports.api = functions.https.onRequest(app);'' 0 = []
   \<and> scan_match demo_regex ''exports.api = functions.https.onRequest(app);'' ''index.js''
        ''https''
        \<lparr> m_index = 0, m_text = ''exports.api = functions.https.onRequest'',
          m_name = ''api'', m_group2 = None, m_group3 = None \<rparr>
       = Inr None"
proof -
  have h: "CHR ''{'' \<notin> set (drop 0 ''exports.api = functions.https.onRequest(app);'')"
    by simp
  have t: "\<not> (str_includes ''https'' ''_es6'' \<or> str_includes ''https'' ''_factory''
               \<or> str_includes ''https'' ''export_'')"
    by code_simp
  from no_open_brace_no_record [OF h, of "''https''"
      "\<lparr> m_index = 0, m_text = ''exports.api = functions.https.onRequest'',
         m_name = ''api'', m_group2 = None, m_group3 = None \<rparr>" demo_regex "''index.js''"] h t
  show ?thesis by simp
qed

section \<open>Properties of the Migration Orchestrator\<close>

lemma log_counts [simp]:
  "total (log msg ty r) = total r"
  "migrated (log msg ty r) = migrated r"
  "failed (log msg ty r) = failed r"
  by (simp_all add: log_def)











section \<open>Properties of the Document-Tree Exporter\<close>

lemma batch_docs_length:
  "length (fst (batch_docs env collectionName includeSubcollections maxDepth subcollectionLimit
                  docs (data, st)))
   = length data + length docs"
  by (induction docs arbitrary: data st) (simp_all add: Let_def)

text \<open>The query of \<open>getBatch\<close> does not depend on the offset.\<close>

lemma getBatch_offset_unused:
  "getBatch env collectionName offset batchSize limit includeSubcollections maxDepth
     subcollectionLimit st
   = getBatch env collectionName offset' batchSize limit includeSubcollections maxDepth
       subcollectionLimit st"
  by (simp add: getBatch_def)

lemma getBatch_unlimited_length:
  assumes "coll_get (db_collection env collectionName) = Inr docs"
  shows "length (fst (fst (getBatch env collectionName offset batchSize 0 includeSubcollections
                             maxDepth subcollectionLimit st)))
         = min batchSize (length docs)"
  using assms
  by (simp add: getBatch_def limit_get_def Let_def case_prod_beta batch_docs_length min.commute)

text \<open>
  Without a limit, over a root collection that is not empty, every fetch returns
  documents, so \<open>getAll\<close> never reaches \<^verbatim>\<open>cleanUp\<close>: whatever the number of fetches
  allowed, it is not done.
\<close>

lemma getAll_unlimited_never_done:
  assumes "coll_get (db_collection env collectionName) = Inr docs"
    and "docs \<noteq> []" and "0 < batchSize"
  shows "getAll fuel env collectionName offset batchSize 0 includeSubcollections maxDepth
           subcollectionLimit st = None"
proof (induction fuel arbitrary: offset st)
  case 0
  show ?case by simp
next
  case (Suc fuel)
  obtain data err st' where
    b: "getBatch env collectionName offset batchSize 0 includeSubcollections maxDepth
          subcollectionLimit st = ((data, err), st')"
    by (metis prod.exhaust)
  from getBatch_unlimited_length [OF assms(1), of offset batchSize includeSubcollections
      maxDepth subcollectionLimit st] b assms(2,3)
  have "0 < length data" by (cases docs) auto
  with b Suc.IH show ?case by simp
qed

text \<open>
  Claim C1 at the failing input: the collection \<^verbatim>\<open>Schools\<close> of the small store, batch
  size 1, no limit. The fetch at offset 0 and the fetch at offset 1 (in the state the
  first one left) return the same first document, and paging is never done.
\<close>

theorem paging_repeats_first_batch:
  "fst (fst (getBatch demo_env ''Schools'' 0 1 0 False 3 100 initial_state))
     = [[(''name'', JStr ''North''), (''firestore_id'', JStr ''s1'')]]
   \<and> fst (fst (getBatch demo_env ''Schools'' 1 1 0 False 3 100
                 (snd (getBatch demo_env ''Schools'' 0 1 0 False 3 100 initial_state))))
     = [[(''name'', JStr ''North''), (''firestore_id'', JStr ''s1'')]]
   \<and> (\<forall>fuel. getAll fuel demo_env ''Schools'' 0 1 0 False 3 100 initial_state = None)"
proof -
  have 1: "fst (fst (getBatch demo_env ''Schools'' 0 1 0 False 3 100 initial_state))
             = [[(''name'', JStr ''North''), (''firestore_id'', JStr ''s1'')]]"
    by code_simp
  have 2: "fst (fst (getBatch demo_env ''Schools'' 1 1 0 False 3 100
                 (snd (getBatch demo_env ''Schools'' 0 1 0 False 3 100 initial_state))))
             = [[(''name'', JStr ''North''), (''firestore_id'', JStr ''s1'')]]"
    by code_simp
  have c: "coll_get (db_collection demo_env ''Schools'') = Inr [demo_school, demo_school_faulty]"
    by (simp add: demo_env_def)
  have 3: "getAll fuel demo_env ''Schools'' 0 1 0 False 3 100 initial_state = None" for fuel
    by (rule getAll_unlimited_never_done [OF c]) simp_all
  from 1 2 3 show ?thesis by blast
qed

text \<open>With a limit the loop does end, on the same first documents fetched again.\<close>

lemma paging_with_limit_repeats:
  "map_option written (getAll 5 demo_env ''Schools'' 0 1 2 False 3 100 initial_state)
     = Some [(''Schools'', [(''name'', JStr ''North''), (''firestore_id'', JStr ''s1'')]),
             (''Schools'', [(''name'', JStr ''North''), (''firestore_id'', JStr ''s1'')])]"
  by code_simp

text \<open>
  A fetch that is rejected ends the walk over a document's nested collections: what
  has been written for the collections before it stays, the message is printed, and
  the collections after it have no effect on the outcome.
\<close>

lemma walk_collections_fault:
  assumes "\<forall>p \<in> set before. \<exists>docs. limit_get subcollectionLimit p = Inr docs"
    and "limit_get subcollectionLimit collection = Inl err"
  shows "walk_collections recurse parentCollectionName parentDocId maxDepth currentDepth
           subcollectionLimit (before @ collection # after)
         = out_append
             (walk_collections recurse parentCollectionName parentDocId maxDepth currentDepth
                subcollectionLimit before)
             ([], [err])"
  using assms
proof (induction before)
  case Nil
  then show ?case by (simp add: Let_def out_append_def)
next
  case (Cons p before)
  from Cons.prems(1) obtain docs where "limit_get subcollectionLimit p = Inr docs"
    by auto
  with Cons show ?case
    by (simp add: Let_def out_append_def)
qed

text \<open>
  Claim C2 at the failing input: the second school's first nested collection cannot
  be fetched. The walk prints the message and ends: no record of the sibling
  collection \<^verbatim>\<open>Classes\<close> is written, where the claim has it processed.
\<close>

theorem fetch_fault_ends_walk:
  "exportSubcollectionsAsSeparateFiles demo_school_faulty ''Schools'' ''s2'' 1 0 100
     = ([], [''permission denied''])
   \<and> fst (exportSubcollectionsAsSeparateFiles
           (FsDoc ''s2'' [(''name'', JStr ''South'')] (Inr [FsColl ''Classes'' (Inr [demo_class])]))
           ''Schools'' ''s2'' 1 0 100)
     = [(''Schools_Classes'',
         [(''title'', JStr ''Maths''), (''firestore_id'', JStr ''c1''),
          (''parent_collection'', JStr ''Schools''), (''parent_document_id'', JStr ''s2''),
          (''collection_path'', JStr ''Schools/s2/Classes'')])]"
  by code_simp

text \<open>
  Claim C3 at the failing input: a nested document whose field \<^verbatim>\<open>firestore_id\<close> is
  taken. The record written for it holds its identifier \<^verbatim>\<open>c9\<close> under none of the four
  candidate names; the root-level rule on the same document stores it under the first
  alternate name.
\<close>

theorem nested_identifier_dropped:
  "fst (exportSubcollectionsAsSeparateFiles demo_legacy_parent ''Schools'' ''s3'' 1 0 100)
     = [(''Schools_Classes'',
         [(''firestore_id'', JStr ''legacy-7''),
          (''parent_collection'', JStr ''Schools''), (''parent_document_id'', JStr ''s3''),
          (''collection_path'', JStr ''Schools/s3/Classes'')])]
   \<and> stamp_root demo_legacy
     = [(''firestore_id'', JStr ''legacy-7''), (''firestoreid'', JStr ''c9'')]"
  by code_simp

text \<open>
  Claim C4 at the failing input: the first school, walked to depth three. The record
  of the student, one level below the class, gets the collection path
  \<^verbatim>\<open>undefined/Students\<close>: the code reads \<^verbatim>\<open>collection_path\<close> from the student's own
  data, where it is absent, and not from the parent. The claim has
  \<^verbatim>\<open>Schools/s1/Classes/Students\<close>.
\<close>

theorem nested_collection_path_undefined:
  "fst (exportSubcollectionsAsSeparateFiles demo_school ''Schools'' ''s1'' 3 0 100)
     = [(''Schools_Classes'',
         [(''title'', JStr ''Maths''), (''firestore_id'', JStr ''c1''),
          (''parent_collection'', JStr ''Schools''), (''parent_document_id'', JStr ''s1''),
          (''collection_path'', JStr ''Schools/s1/Classes'')]),
        (''Schools_Classes_Students'',
         [(''name'', JStr ''Ada''), (''firestore_id'', JStr ''p1''),
          (''parent_collection'', JStr ''Schools_Classes''), (''parent_document_id'', JStr ''c1''),
          (''collection_path'', JStr ''undefined/Students'')])]"
  by code_simp

lemma get_set_field: "get_field (set_field d k v) k = v"
  by (induction d) auto

lemma get_set_field_other: "k' \<noteq> k \<Longrightarrow> get_field (set_field d k' v) k = get_field d k"
  by (induction d) auto

text \<open>
  Where the name \<^verbatim>\<open>firestore_id\<close> is free, both rules store the identifier under it;
  where it is taken, the root-level rule stores it under the first alternate name that
  is free.
\<close>

lemma identity_first_candidate:
  assumes "\<not> truthy (get_field (fs_data doc) ''firestore_id'')"
  shows "get_field (stamp_root doc) ''firestore_id'' = JStr (fs_id doc)"
    and "get_field (stamp_nested parentCollectionName parentDocId currentDepth
                      subcollectionName doc) ''firestore_id'' = JStr (fs_id doc)"
  using assms
  by (simp_all add: stamp_root_def stamp_nested_def Let_def get_set_field get_set_field_other)

lemma identity_root_alternate:
  assumes "truthy (get_field (fs_data doc) ''firestore_id'')"
  shows "\<not> truthy (get_field (fs_data doc) ''firestoreid'')
           \<Longrightarrow> get_field (stamp_root doc) ''firestoreid'' = JStr (fs_id doc)"
    and "truthy (get_field (fs_data doc) ''firestoreid'')
           \<Longrightarrow> \<not> truthy (get_field (fs_data doc) ''original_id'')
           \<Longrightarrow> get_field (stamp_root doc) ''original_id'' = JStr (fs_id doc)"
    and "truthy (get_field (fs_data doc) ''firestoreid'')
           \<Longrightarrow> truthy (get_field (fs_data doc) ''original_id'')
           \<Longrightarrow> \<not> truthy (get_field (fs_data doc) ''originalid'')
           \<Longrightarrow> get_field (stamp_root doc) ''originalid'' = JStr (fs_id doc)"
  using assms
  by (simp_all add: stamp_root_def Let_def get_set_field)

text \<open>
  Where the name is taken, the nested rule leaves the four candidate fields as the
  source document has them.
\<close>

lemma identity_nested_taken:
  assumes "truthy (get_field (fs_data doc) ''firestore_id'')"
    and "k \<in> {''firestore_id'', ''firestoreid'', ''original_id'', ''originalid''}"
  shows "get_field (stamp_nested parentCollectionName parentDocId currentDepth
                      subcollectionName doc) k
         = get_field (fs_data doc) k"
  using assms
  by (auto simp: stamp_nested_def Let_def get_set_field_other)

text \<open>What the code computes for the path, at any depth below the first.\<close>

lemma stamp_nested_collection_path:
  "get_field (stamp_nested parentCollectionName parentDocId currentDepth subcollectionName doc)
     ''collection_path''
   = JStr (if currentDepth = 0
           then parentCollectionName @ ''/'' @ parentDocId @ ''/'' @ subcollectionName
           else to_string (get_field (fs_data doc) ''collection_path'') @ ''/'' @ subcollectionName)"
  by (simp add: stamp_nested_def Let_def get_set_field get_set_field_other)

end
